theory Spec2Isabelle
  imports Main "HOL-Library.Word" "HOL-Library.Char_ord" "HOL-Library.List_Lexorder"
begin

section \<open>Values\<close>

text \<open>
  The program is a Streamlit application over sqlite3 and pandas. The database engine,
  pandas, the file system, the wall clock and the widgets are outside the repository:
  they are parameters of the model, and every answer they may give (a value or a raised
  exception) is a value of the model.

  Python text is a \<^typ>\<open>string\<close> whose characters are the code points below 256.
  A Python float is kept as its 64 bits; nothing here computes with one.
\<close>

type_synonym pyfloat = "64 word"
type_synonym bytes = "8 word list"

text \<open>An open \<open>sqlite3.Connection\<close> is a handle number handed out by the engine.\<close>

type_synonym conn = nat

text \<open>
  Every exception of the program is caught by \<open>except Exception\<close> or a bare
  \<open>except\<close>; the model keeps its class and what \<open>str(e)\<close> is built from. For a
  key that is missing from the session state, the name of the key stands for the sentence
  Streamlit writes.
\<close>

datatype error =
    Exception string
  | AttributeError string
  | KeyError string
  | IndexError string

fun str_error :: "error \<Rightarrow> string" where
  "str_error (Exception m) = m"
| "str_error (AttributeError m) = m"
| "str_error (KeyError k) = [CHR 0x27] @ k @ [CHR 0x27]"
| "str_error (IndexError m) = m"

text \<open>The values a cell of a result can hold.\<close>

datatype scalar = SNull | SInt int | SReal pyfloat | SText string

text \<open>
  The values of the preferences dictionary: an integer (the slider's), a text, a flag.
\<close>

datatype pref_value = PInt int | PStr string | PBool bool

text \<open>
  A \<open>pandas.DataFrame\<close>: its columns in order, each with its name and its cells. All
  columns of a frame have the same length, the number of rows, and \<open>df[name]\<close> is
  the column of that name.
\<close>

type_synonym frame = "(string \<times> scalar list) list"

definition len_frame :: "frame \<Rightarrow> nat" where
  "len_frame df = (case df of [] \<Rightarrow> 0 | (name, cells) # rest \<Rightarrow> length cells)"

definition empty_frame :: "frame \<Rightarrow> bool" where
  "empty_frame df \<longleftrightarrow> df = [] \<or> len_frame df = 0"

text \<open>\<open>df.iloc[0, 0]\<close>: the first cell of the first column, or \<open>IndexError\<close>.\<close>

definition iloc00 :: "frame \<Rightarrow> error + scalar" where
  "iloc00 df =
     (case df of
        (name, c # cs) # rest \<Rightarrow> Inr c
      | _ \<Rightarrow> Inl (IndexError ''single positional indexer is out-of-bounds''))"

text \<open>\<open>df.head(10)\<close>: the first ten rows.\<close>

definition head10 :: "frame \<Rightarrow> frame" where
  "head10 df = map (\<lambda>(name, cells). (name, take 10 cells)) df"

section \<open>Text\<close>

text \<open>\<open>str(n)\<close> for an integer: its decimal digits, with a minus sign below zero.\<close>

definition digit_char :: "nat \<Rightarrow> char" where
  "digit_char d = char_of (of_char (CHR ''0'') + d)"

fun str_nat :: "nat \<Rightarrow> string" where
  "str_nat n = (if n < 10 then [digit_char n] else str_nat (n div 10) @ [digit_char (n mod 10)])"

declare str_nat.simps [simp del]

definition str_int :: "int \<Rightarrow> string" where
  "str_int i = (if i < 0 then CHR ''-'' # str_nat (nat (- i)) else str_nat (nat i))"

text \<open>What an f-string writes for a preference value: \<open>str(v)\<close>.\<close>

fun str_pref :: "pref_value \<Rightarrow> string" where
  "str_pref (PInt i) = str_int i"
| "str_pref (PStr s) = s"
| "str_pref (PBool b) = (if b then ''True'' else ''False'')"

text \<open>
  \<open>str.isspace\<close> on the code points below 256: tab to carriage return, the four
  separators, the space, NEL and the no-break space.
\<close>

definition isspace :: "char \<Rightarrow> bool" where
  "isspace c \<longleftrightarrow> (let n = (of_char c :: nat) in
     (9 \<le> n \<and> n \<le> 13) \<or> (28 \<le> n \<and> n \<le> 32) \<or> n = 133 \<or> n = 160)"

definition strip :: "string \<Rightarrow> string" where
  "strip s = rev (dropWhile isspace (rev (dropWhile isspace s)))"

text \<open>
  \<open>str.upper\<close>, character by character. The three characters below 256 whose upper case
  lies outside that range (the micro sign, the sharp s and y with diaeresis) are left as
  they are; none of them becomes a letter of \<open>SELECT\<close> followed by the right one.
\<close>

definition upper_char :: "char \<Rightarrow> char" where
  "upper_char c = (let n = (of_char c :: nat) in
     if (97 \<le> n \<and> n \<le> 122) \<or> (224 \<le> n \<and> n \<le> 254 \<and> n \<noteq> 247) then char_of (n - 32) else c)"

definition upper :: "string \<Rightarrow> string" where
  "upper s = map upper_char s"

fun startswith :: "string \<Rightarrow> string \<Rightarrow> bool" where
  "startswith s [] = True"
| "startswith [] (p # ps) = False"
| "startswith (c # cs) (p # ps) = (c = p \<and> startswith cs ps)"

section \<open>The session state\<close>

text \<open>
  \<open>st.session_state\<close> is a dictionary read through attributes. A field is \<open>None\<close>
  while its key is absent; reading an absent key raises \<open>AttributeError\<close>, assigning
  one creates it. The keys the program does not name (the widgets' own) are the
  \<open>more\<close> part of the record.
\<close>

record history_entry =
  query :: string
  timestamp :: pyfloat
  success :: bool
  rows_returned :: int
  time :: string

record session_state =
  db_path :: "string option option"
  connection :: "conn option option"
  tables :: "scalar list option"
  query_history :: "history_entry list option"
  selected_table :: "string option option"
  active_tab :: "string option"
  preferences :: "(string \<rightharpoonup> pref_value) option"

text \<open>The dictionary \<open>init_session_state\<close> stores under \<open>preferences\<close>.\<close>

definition default_preferences :: "string \<rightharpoonup> pref_value" where
  "default_preferences =
     [''rows_per_page'' \<mapsto> PInt 100, ''theme'' \<mapsto> PStr ''light'', ''auto_run_queries'' \<mapsto> PBool False]"

text \<open>One \<open>if key not in st.session_state: st.session_state.key = default\<close>.\<close>

definition setdefault :: "'v \<Rightarrow> 'v option \<Rightarrow> 'v option" where
  "setdefault d field = (case field of None \<Rightarrow> Some d | Some v \<Rightarrow> Some v)"

definition init_session_state :: "'a session_state_scheme \<Rightarrow> 'a session_state_scheme" where
  "init_session_state s =
     s\<lparr>db_path := setdefault None (db_path s),
       connection := setdefault None (connection s),
       tables := setdefault [] (tables s),
       query_history := setdefault [] (query_history s),
       selected_table := setdefault None (selected_table s),
       active_tab := setdefault ''explorer'' (active_tab s),
       preferences := setdefault default_preferences (preferences s)\<rparr>"

text \<open>The session state before the first run: no key at all.\<close>

definition fresh_session :: session_state where
  "fresh_session =
     \<lparr>db_path = None, connection = None, tables = None, query_history = None,
      selected_table = None, active_tab = None, preferences = None\<rparr>"

section \<open>The world outside\<close>

text \<open>
  The engine, pandas and the file system form a state machine of an arbitrary state type
  \<open>'db\<close>: each operation answers with a value or an exception and a next state.
    \<^item> \<open>be_connect\<close>: \<open>sqlite3.connect(path)\<close>;
    \<^item> \<open>be_close\<close>: \<open>conn.close()\<close>;
    \<^item> \<open>be_execute\<close>: \<open>conn.cursor()\<close> and \<open>cursor.execute(sql)\<close> (also
      \<open>conn.execute(sql)\<close>, which is the two together); the value is the
      \<open>cursor.rowcount\<close> left behind;
    \<^item> \<open>be_commit\<close>: \<open>conn.commit()\<close>;
    \<^item> \<open>be_read_sql\<close>: \<open>pd.read_sql_query(sql, conn)\<close>, given whatever the caller
      holds as connection, also \<open>None\<close>;
    \<^item> \<open>be_write_temp\<close>: \<open>tempfile.NamedTemporaryFile(delete=False, suffix='.db')\<close>
      with the bytes written, giving the name of the new file;
    \<^item> \<open>be_to_csv\<close>, \<open>be_to_json\<close>, \<open>be_to_excel\<close>: the calls
      \<open>df.to_csv(index=False)\<close>, \<open>df.to_json(orient="records", indent=2)\<close> and
      \<open>df.to_excel(index=False)\<close> as the exporter writes them.
\<close>

record 'db backend =
  be_connect :: "'db \<Rightarrow> string \<Rightarrow> (error + conn) \<times> 'db"
  be_close :: "'db \<Rightarrow> conn \<Rightarrow> (error + unit) \<times> 'db"
  be_execute :: "'db \<Rightarrow> conn \<Rightarrow> string \<Rightarrow> (error + int) \<times> 'db"
  be_commit :: "'db \<Rightarrow> conn \<Rightarrow> (error + unit) \<times> 'db"
  be_read_sql :: "'db \<Rightarrow> conn option \<Rightarrow> string \<Rightarrow> (error + frame) \<times> 'db"
  be_write_temp :: "'db \<Rightarrow> bytes \<Rightarrow> (error + string) \<times> 'db"
  be_to_csv :: "frame \<Rightarrow> error + string"
  be_to_json :: "frame \<Rightarrow> error + string"
  be_to_excel :: "frame \<Rightarrow> error + string"

text \<open>What the program puts on the page, in order.\<close>

datatype message =
    StSuccess string
  | StError string
  | StWarning string
  | StInfo string
  | StInfoValue scalar
  | StSubheader string
  | StWrite string
  | StDataframe frame
  | StDownload string string string string
  | StPreview string frame

text \<open>
  A run of the program acts on the session state, on the state of the world outside and
  on the page.
\<close>

record ('db, 'a) world =
  session :: "'a session_state_scheme"
  database :: 'db
  screen :: "message list"

definition st_show :: "message \<Rightarrow> ('db, 'a, 'b) world_scheme \<Rightarrow> ('db, 'a, 'b) world_scheme" where
  "st_show m w = w\<lparr>screen := screen w @ [m]\<rparr>"

section \<open>session\_manager.py\<close>

text \<open>
  \<open>clear_database_state\<close>: reads \<open>connection\<close>; a connection that is there is closed
  inside \<open>try ... except: pass\<close>, so whatever \<open>close\<close> raises is dropped; then the four
  fields are assigned.
\<close>

definition clear_database_state ::
  "'db backend \<Rightarrow> ('db, 'a, 'b) world_scheme \<Rightarrow> (error + unit) \<times> ('db, 'a, 'b) world_scheme" where
  "clear_database_state be w =
     (case connection (session w) of
        None \<Rightarrow> (Inl (AttributeError ''connection''), w)
      | Some held \<Rightarrow>
          let w1 = (case held of
                      None \<Rightarrow> w
                    | Some c \<Rightarrow> w\<lparr>database := snd (be_close be (database w) c)\<rparr>)
          in (Inr (), w1\<lparr>session := (session w1)
                \<lparr>db_path := Some None, connection := Some None,
                 tables := Some [], selected_table := Some None\<rparr>\<rparr>))"

text \<open>
  \<open>add_to_query_history\<close>: the clock is read twice for the entry (\<open>time.time()\<close> and
  \<open>time.strftime\<close>); both readings come in as \<open>now\<close>. The entry is inserted at index 0
  and the list cut to its first 50 when it is longer.
\<close>

definition add_to_query_history ::
  "pyfloat \<times> string \<Rightarrow> string \<Rightarrow> bool \<Rightarrow> int \<Rightarrow> 'a session_state_scheme
     \<Rightarrow> error + 'a session_state_scheme" where
  "add_to_query_history now q ok n s =
     (let history_entry = \<lparr>query = q, timestamp = fst now, success = ok,
                            rows_returned = n, time = snd now\<rparr>
      in case query_history s of
           None \<Rightarrow> Inl (AttributeError ''query_history'')
         | Some h \<Rightarrow>
             let h1 = history_entry # h
             in Inr (s\<lparr>query_history := Some (if length h1 > 50 then take 50 h1 else h1)\<rparr>))"

text \<open>\<open>update_preference\<close>: the returned flag and the session state after the call.\<close>

definition update_preference ::
  "string \<Rightarrow> pref_value \<Rightarrow> 'a session_state_scheme \<Rightarrow> error + bool \<times> 'a session_state_scheme" where
  "update_preference key v s =
     (case preferences s of
        None \<Rightarrow> Inl (AttributeError ''preferences'')
      | Some p \<Rightarrow>
          if p key \<noteq> None then Inr (True, s\<lparr>preferences := Some (p(key \<mapsto> v))\<rparr>)
          else Inr (False, s))"

section \<open>utils/database.py\<close>

text \<open>
  \<open>connect_to_database\<close>: \<open>sqlite3.connect\<close>, then the pragma on the new connection;
  whatever either raises is raised again as an \<open>Exception\<close> with a prefix.
\<close>

definition connect_to_database :: "'db backend \<Rightarrow> 'db \<Rightarrow> string \<Rightarrow> (error + conn) \<times> 'db" where
  "connect_to_database be db path =
     (case be_connect be db path of
        (Inl e, db1) \<Rightarrow> (Inl (Exception (''Failed to connect to database: '' @ str_error e)), db1)
      | (Inr c, db1) \<Rightarrow>
          (case be_execute be db1 c ''PRAGMA foreign_keys = ON'' of
             (Inl e, db2) \<Rightarrow>
               (Inl (Exception (''Failed to connect to database: '' @ str_error e)), db2)
           | (Inr n, db2) \<Rightarrow> (Inr c, db2)))"

text \<open>The text \<open>get_table_list\<close> sends, with the line breaks of its triple-quoted literal.\<close>

definition table_list_query :: string where
  "table_list_query =
     ''\<newline>        SELECT name \<newline>        FROM sqlite_master \<newline>        WHERE type='table' '' @
     ''\<newline>        AND name NOT LIKE 'sqlite_%'\<newline>        ORDER BY name\<newline>        ''"

text \<open>
  \<open>get_table_list\<close>: the column \<open>name\<close> of the answer as a list. An exception of the
  read, or of \<open>df['name']\<close> on an answer without that column, is printed to the
  server's console and the empty list returned.
\<close>

definition get_table_list :: "'db backend \<Rightarrow> 'db \<Rightarrow> conn \<Rightarrow> scalar list \<times> 'db" where
  "get_table_list be db c =
     (case be_read_sql be db (Some c) table_list_query of
        (Inl e, db1) \<Rightarrow> ([], db1)
      | (Inr df, db1) \<Rightarrow>
          (case map_of df ''name'' of
             None \<Rightarrow> ([], db1)
           | Some cells \<Rightarrow> (cells, db1)))"

text \<open>The test \<open>query.strip().upper().startswith('SELECT')\<close>.\<close>

definition is_select :: "string \<Rightarrow> bool" where
  "is_select q \<longleftrightarrow> startswith (upper (strip q)) ''SELECT''"

text \<open>The two frames \<open>execute_query\<close> builds itself.\<close>

definition rows_affected_frame :: "int \<Rightarrow> frame" where
  "rows_affected_frame rowcount =
     [(''message'', [SText (''Query executed successfully. Rows affected: '' @ str_int rowcount)])]"

definition executed_frame :: frame where
  "executed_frame = [(''message'', [SText ''Query executed successfully.''])]"

text \<open>
  \<open>execute_query\<close>, given what the caller holds as connection. On \<open>None\<close> the call
  \<open>conn.cursor()\<close> of the second branch raises \<open>AttributeError\<close>. Every exception
  leaves as \<open>Exception("Error executing query: ...")\<close>.
\<close>

definition execute_query ::
  "'db backend \<Rightarrow> 'db \<Rightarrow> conn option \<Rightarrow> string \<Rightarrow> (error + frame) \<times> 'db" where
  "execute_query be db held q =
     (let query_upper = upper (strip q) in
      if startswith query_upper ''SELECT'' then
        (case be_read_sql be db held q of
           (Inl e, db1) \<Rightarrow> (Inl (Exception (''Error executing query: '' @ str_error e)), db1)
         | (Inr df, db1) \<Rightarrow> (Inr df, db1))
      else
        (case held of
           None \<Rightarrow>
             (Inl (Exception (''Error executing query: '' @ str_error
                     (AttributeError ([CHR 0x27] @ ''NoneType'' @ [CHR 0x27]
                        @ '' object has no attribute '' @ [CHR 0x27] @ ''cursor'' @ [CHR 0x27])))), db)
         | Some c \<Rightarrow>
             (case be_execute be db c q of
                (Inl e, db1) \<Rightarrow>
                  (Inl (Exception (''Error executing query: '' @ str_error e)), db1)
              | (Inr rowcount, db1) \<Rightarrow>
                  (case be_commit be db1 c of
                     (Inl e, db2) \<Rightarrow>
                       (Inl (Exception (''Error executing query: '' @ str_error e)), db2)
                   | (Inr u, db2) \<Rightarrow>
                       if rowcount \<ge> 0 then (Inr (rows_affected_frame rowcount), db2)
                       else (Inr executed_frame, db2)))))"

text \<open>\<open>get_table_preview\<close>: the text is built from the name and the limit and read.\<close>

definition get_table_preview ::
  "'db backend \<Rightarrow> 'db \<Rightarrow> conn option \<Rightarrow> string \<Rightarrow> pref_value \<Rightarrow> (error + frame) \<times> 'db" where
  "get_table_preview be db held table_name limit =
     (let q = ''SELECT * FROM '' @ table_name @ '' LIMIT '' @ str_pref limit in
      case be_read_sql be db held q of
        (Inl e, db1) \<Rightarrow>
          (Inl (Exception (''Error getting preview for table '' @ [CHR 0x27] @ table_name
                            @ [CHR 0x27] @ '': '' @ str_error e)), db1)
      | (Inr df, db1) \<Rightarrow> (Inr df, db1))"

section \<open>modules/db\_explorer.py\<close>

text \<open>
  \<open>render_data_preview\<close>: the arguments of \<open>get_table_preview\<close> are read from the
  session state inside the \<open>try\<close>, the connection first, then
  \<open>preferences['rows_per_page']\<close>.
\<close>

definition render_data_preview ::
  "'db backend \<Rightarrow> string \<Rightarrow> ('db, 'a, 'b) world_scheme \<Rightarrow> ('db, 'a, 'b) world_scheme" where
  "render_data_preview be table_name w =
     (let w0 = st_show (StSubheader (''Data: '' @ table_name)) w;
          failed = (\<lambda>e v. st_show (StError (''Error loading table data: '' @ str_error e)) v)
      in case connection (session w0) of
           None \<Rightarrow> failed (AttributeError ''connection'') w0
         | Some held \<Rightarrow>
             (case preferences (session w0) of
                None \<Rightarrow> failed (AttributeError ''preferences'') w0
              | Some p \<Rightarrow>
                  (case p ''rows_per_page'' of
                     None \<Rightarrow> failed (KeyError ''rows_per_page'') w0
                   | Some limit \<Rightarrow>
                       (case get_table_preview be (database w0) held table_name limit of
                          (Inl e, db1) \<Rightarrow> failed e (w0\<lparr>database := db1\<rparr>)
                        | (Inr df, db1) \<Rightarrow>
                            st_show (StDataframe df)
                              (st_show (StWrite (''Showing first **'' @ str_int (int (len_frame df))
                                                  @ ''** rows''))
                                 (w0\<lparr>database := db1\<rparr>))))))"

section \<open>modules/sql\_editor.py\<close>

text \<open>
  \<open>execute_sql_query\<close>. Everything after the blank-text test runs inside \<open>try\<close>; the
  \<open>except Exception\<close> branch is \<open>handler\<close>, whose own call of
  \<open>add_to_query_history\<close> is not protected: what it raises leaves the function.
\<close>

definition execute_sql_query ::
  "'db backend \<Rightarrow> pyfloat \<times> string \<Rightarrow> string \<Rightarrow> ('db, 'a, 'b) world_scheme
     \<Rightarrow> (error + unit) \<times> ('db, 'a, 'b) world_scheme" where
  "execute_sql_query be now q w =
     (if strip q = [] then (Inr (), st_show (StWarning ''Please enter a SQL query first.'') w)
      else
        let handler = (\<lambda>e v.
              case add_to_query_history now q False 0 (session v) of
                Inl e2 \<Rightarrow> (Inl e2, v)
              | Inr s1 \<Rightarrow>
                  (Inr (), st_show (StError (''Query Error: '' @ str_error e)) (v\<lparr>session := s1\<rparr>)))
        in case connection (session w) of
             None \<Rightarrow> handler (AttributeError ''connection'') w
           | Some held \<Rightarrow>
               (case execute_query be (database w) held q of
                  (Inl e, db1) \<Rightarrow> handler e (w\<lparr>database := db1\<rparr>)
                | (Inr result_df, db1) \<Rightarrow>
                    let w1 = w\<lparr>database := db1\<rparr>;
                        rows_returned = int (len_frame result_df)
                    in case add_to_query_history now q True rows_returned (session w1) of
                         Inl e \<Rightarrow> handler e w1
                       | Inr s1 \<Rightarrow>
                           let w2 = st_show (StSuccess ''Query executed successfully!'')
                                      (w1\<lparr>session := s1\<rparr>)
                           in if startswith (upper (strip q)) ''SELECT'' then
                                (if \<not> empty_frame result_df then
                                   (Inr (), st_show (StDataframe result_df)
                                      (st_show (StWrite (''**Results ('' @ str_int (int (len_frame result_df))
                                                          @ '' rows):**'')) w2))
                                 else (Inr (), st_show (StInfo ''Query returned 0 rows.'') w2))
                              else
                                (if \<not> empty_frame result_df then
                                   (case iloc00 result_df of
                                      Inl e \<Rightarrow> handler e w2
                                    | Inr cell \<Rightarrow> (Inr (), st_show (StInfoValue cell) w2))
                                 else (Inr (), st_show (StInfo ''Query executed.'') w2))))"

section \<open>modules/exporter.py\<close>

text \<open>
  \<open>export_table_data\<close> and \<open>export_query_results\<close> are written out one after the
  other, as the source has them. The download button is the message \<open>StDownload\<close>
  with its label, data, file name and media type.
\<close>

definition export_table_data ::
  "'db backend \<Rightarrow> string \<Rightarrow> string \<Rightarrow> ('db, 'a, 'b) world_scheme \<Rightarrow> ('db, 'a, 'b) world_scheme" where
  "export_table_data be table_name fmt w =
     (let failed = (\<lambda>e v. st_show (StError (''Export error: '' @ str_error e)) v);
          q = ''SELECT * FROM '' @ table_name
      in case connection (session w) of
           None \<Rightarrow> failed (AttributeError ''connection'') w
         | Some held \<Rightarrow>
             (case execute_query be (database w) held q of
                (Inl e, db1) \<Rightarrow> failed e (w\<lparr>database := db1\<rparr>)
              | (Inr df, db1) \<Rightarrow>
                  let w1 = w\<lparr>database := db1\<rparr>;
                      offer = (\<lambda>data mime_type file_extension.
                        st_show (StPreview ''Preview data'' (head10 df))
                          (st_show (StSuccess (''Ready to export '' @ str_int (int (len_frame df))
                                     @ '' rows from '' @ [CHR 0x27] @ table_name @ [CHR 0x27]))
                             (st_show (StDownload
                                         (''Download '' @ table_name @ ''.'' @ file_extension)
                                         data
                                         (table_name @ ''.'' @ file_extension)
                                         mime_type) w1)))
                  in if empty_frame df then st_show (StWarning ''Table is empty.'') w1
                     else if fmt = ''CSV'' then
                       (case be_to_csv be df of
                          Inl e \<Rightarrow> failed e w1
                        | Inr data \<Rightarrow> offer data ''text/csv'' ''csv'')
                     else if fmt = ''JSON'' then
                       (case be_to_json be df of
                          Inl e \<Rightarrow> failed e w1
                        | Inr data \<Rightarrow> offer data ''application/json'' ''json'')
                     else if fmt = ''Excel'' then
                       (case be_to_excel be df of
                          Inl e \<Rightarrow> failed e w1
                        | Inr data \<Rightarrow>
                            offer data
                              ''application/vnd.openxmlformats-officedocument.spreadsheetml.sheet''
                              ''xlsx'')
                     else st_show (StError ''Unsupported format'') w1))"

definition export_query_results ::
  "'db backend \<Rightarrow> string \<Rightarrow> string \<Rightarrow> ('db, 'a, 'b) world_scheme \<Rightarrow> ('db, 'a, 'b) world_scheme" where
  "export_query_results be q fmt w =
     (let failed = (\<lambda>e v. st_show (StError (''Export error: '' @ str_error e)) v)
      in case connection (session w) of
           None \<Rightarrow> failed (AttributeError ''connection'') w
         | Some held \<Rightarrow>
             (case execute_query be (database w) held q of
                (Inl e, db1) \<Rightarrow> failed e (w\<lparr>database := db1\<rparr>)
              | (Inr df, db1) \<Rightarrow>
                  let w1 = w\<lparr>database := db1\<rparr>;
                      offer = (\<lambda>data mime_type file_extension.
                        st_show (StPreview ''Preview results'' (head10 df))
                          (st_show (StSuccess (''Ready to export '' @ str_int (int (len_frame df))
                                     @ '' rows''))
                             (st_show (StDownload
                                         (''Download query_results.'' @ file_extension)
                                         data
                                         (''query_results.'' @ file_extension)
                                         mime_type) w1)))
                  in if empty_frame df then st_show (StWarning ''Query returned no results.'') w1
                     else if fmt = ''CSV'' then
                       (case be_to_csv be df of
                          Inl e \<Rightarrow> failed e w1
                        | Inr data \<Rightarrow> offer data ''text/csv'' ''csv'')
                     else if fmt = ''JSON'' then
                       (case be_to_json be df of
                          Inl e \<Rightarrow> failed e w1
                        | Inr data \<Rightarrow> offer data ''application/json'' ''json'')
                     else if fmt = ''Excel'' then
                       (case be_to_excel be df of
                          Inl e \<Rightarrow> failed e w1
                        | Inr data \<Rightarrow>
                            offer data
                              ''application/vnd.openxmlformats-officedocument.spreadsheetml.sheet''
                              ''xlsx'')
                     else st_show (StError ''Unsupported format'') w1))"

text \<open>The data of the download buttons on the page, in order.\<close>

fun download_data :: "message \<Rightarrow> string option" where
  "download_data (StDownload l d f m) = Some d"
| "download_data other = None"

definition exported :: "('db, 'a, 'b) world_scheme \<Rightarrow> string list" where
  "exported w = List.map_filter download_data (screen w)"

section \<open>modules/file\_uploader.py\<close>

text \<open>
  \<open>handle_uploaded_file\<close>: the returned flag and the world after. The whole body runs
  inside \<open>try\<close>; \<open>failed\<close> is the \<open>except Exception\<close> branch. The old state is
  cleared before the new file is connected to.
\<close>

definition handle_uploaded_file ::
  "'db backend \<Rightarrow> bytes \<Rightarrow> ('db, 'a, 'b) world_scheme \<Rightarrow> bool \<times> ('db, 'a, 'b) world_scheme" where
  "handle_uploaded_file be uploaded w =
     (let failed = (\<lambda>e v. (False, st_show (StError (''Error loading database: '' @ str_error e)) v))
      in case be_write_temp be (database w) uploaded of
           (Inl e, db1) \<Rightarrow> failed e (w\<lparr>database := db1\<rparr>)
         | (Inr tmp_path, db1) \<Rightarrow>
             let w1 = w\<lparr>database := db1\<rparr>
             in case db_path (session w1) of
                  None \<Rightarrow> failed (AttributeError ''db_path'') w1
                | Some current \<Rightarrow>
                    if current \<noteq> Some tmp_path then
                      (case clear_database_state be w1 of
                         (Inl e, w2) \<Rightarrow> failed e w2
                       | (Inr u, w2) \<Rightarrow>
                           (case connect_to_database be (database w2) tmp_path of
                              (Inl e, db3) \<Rightarrow> failed e (w2\<lparr>database := db3\<rparr>)
                            | (Inr c, db3) \<Rightarrow>
                                let w3 = w2\<lparr>database := db3,
                                           session := (session w2)
                                             \<lparr>connection := Some (Some c),
                                              db_path := Some (Some tmp_path)\<rparr>\<rparr>;
                                    listed = get_table_list be (database w3) c;
                                    w4 = w3\<lparr>database := snd listed,
                                           session := (session w3)\<lparr>tables := Some (fst listed)\<rparr>\<rparr>
                                in (True,
                                    st_show (StSuccess (''Database loaded successfully! Found ''
                                               @ str_int (int (length (fst listed))) @ '' tables.''))
                                      w4)))
                    else (False, w1))"

section \<open>The words of the specification\<close>

text \<open>
  The specification dispatches on the first keyword of a statement: the longest run of
  letters, digits and underscores at the start of the stripped text, compared without
  regard to case. It is set beside \<open>is_select\<close>, the test of the source.
\<close>

definition is_word_char :: "char \<Rightarrow> bool" where
  "is_word_char c \<longleftrightarrow> (let n = (of_char c :: nat) in
     (48 \<le> n \<and> n \<le> 57) \<or> (65 \<le> n \<and> n \<le> 90) \<or> n = 95 \<or> (97 \<le> n \<and> n \<le> 122)
     \<or> 128 \<le> n)"

definition first_keyword :: "string \<Rightarrow> string" where
  "first_keyword q = takeWhile is_word_char (strip q)"

text \<open>
  The names the engine reserves for its own catalogue are those that begin with
  \<open>sqlite_\<close>, in any case of the ASCII letters.
\<close>

definition lower_ascii :: "char \<Rightarrow> char" where
  "lower_ascii c = (let n = (of_char c :: nat) in
     if 65 \<le> n \<and> n \<le> 90 then char_of (n + 32) else c)"

definition reserved_name :: "string \<Rightarrow> bool" where
  "reserved_name name \<longleftrightarrow> startswith (map lower_ascii name) ''sqlite_''"

section \<open>The answer to the query of get\_table\_list\<close>

text \<open>
  The text of \<open>table_list_query\<close> is part of the source; what it selects is decided by
  the engine. \<open>x LIKE pattern\<close>: in the pattern \<open>%\<close> stands for any run of
  characters, also the empty one, \<open>_\<close> for any single character, and every other
  character for itself without regard to the case of ASCII letters.
\<close>

fun sql_like :: "string \<Rightarrow> string \<Rightarrow> bool" where
  "sql_like [] [] = True"
| "sql_like [] (c # cs) = False"
| "sql_like (p # ps) [] = (p = CHR ''%'' \<and> sql_like ps [])"
| "sql_like (p # ps) (c # cs) =
     (if p = CHR ''%'' then sql_like ps (c # cs) \<or> sql_like (p # ps) cs
      else (p = CHR ''_'' \<or> lower_ascii p = lower_ascii c) \<and> sql_like ps cs)"

text \<open>
  The rows of \<open>sqlite_master\<close> are pairs of a type and a name. The query keeps the
  names of the rows with \<open>type='table'\<close> and \<open>name NOT LIKE 'sqlite_%'\<close> and orders
  them by name, character code by character code.
\<close>

definition sqlite_table_names :: "(string \<times> string) list \<Rightarrow> string list" where
  "sqlite_table_names master =
     sort (map snd
       (filter (\<lambda>(type, name). type = ''table'' \<and> \<not> sql_like ''sqlite_%'' name) master))"

section \<open>A scripted world for running the model\<close>

text \<open>
  To run the functions above on concrete inputs, a world that answers every call from a
  fixed script and keeps the list of the calls made to it as its state.
\<close>

datatype call =
    Connect string
  | Close conn
  | Execute conn string
  | Commit conn
  | ReadSql "conn option" string
  | WriteTemp bytes

record script =
  on_connect :: "string \<Rightarrow> error + conn"
  on_close :: "conn \<Rightarrow> error + unit"
  on_execute :: "string \<Rightarrow> error + int"
  on_commit :: "error + unit"
  on_read :: "string \<Rightarrow> error + frame"
  on_write_temp :: "error + string"
  on_encode :: "frame \<Rightarrow> error + string"

definition scripted :: "script \<Rightarrow> call list backend" where
  "scripted sc =
     \<lparr>be_connect = (\<lambda>log path. (on_connect sc path, log @ [Connect path])),
      be_close = (\<lambda>log c. (on_close sc c, log @ [Close c])),
      be_execute = (\<lambda>log c q. (on_execute sc q, log @ [Execute c q])),
      be_commit = (\<lambda>log c. (on_commit sc, log @ [Commit c])),
      be_read_sql = (\<lambda>log held q. (on_read sc q, log @ [ReadSql held q])),
      be_write_temp = (\<lambda>log b. (on_write_temp sc, log @ [WriteTemp b])),
      be_to_csv = on_encode sc,
      be_to_json = on_encode sc,
      be_to_excel = (\<lambda>df. Inl (Exception ''to_excel() missing 1 required positional argument''))\<rparr>"

text \<open>A script in which every call succeeds: one table \<open>users\<close> with two rows.\<close>

definition users_frame :: frame where
  "users_frame = [(''id'', [SInt 1, SInt 2]), (''username'', [SText ''alice'', SText ''bob''])]"

definition healthy :: script where
  "healthy =
     \<lparr>on_connect = (\<lambda>path. Inr 1),
      on_close = (\<lambda>c. Inr ()),
      on_execute = (\<lambda>q. Inr (if q = ''PRAGMA foreign_keys = ON'' then - 1 else 1)),
      on_commit = Inr (),
      on_read = (\<lambda>q. if q = table_list_query then Inr [(''name'', [SText ''users''])]
                       else Inr users_frame),
      on_write_temp = Inr ''/tmp/tmpk3v9_2xq.db'',
      on_encode = (\<lambda>df. Inr ''id,username\<newline>1,alice\<newline>2,bob\<newline>'')\<rparr>"

text \<open>
  A script over a given \<open>sqlite_master\<close>: the query of \<open>get_table_list\<close> is
  answered as the engine answers it, any other read fails.
\<close>

definition catalogue :: "(string \<times> string) list \<Rightarrow> script" where
  "catalogue master =
     healthy\<lparr>on_read := (\<lambda>q. if q = table_list_query
                              then Inr [(''name'', map SText (sqlite_table_names master))]
                              else Inl (Exception ''no such table''))\<rparr>"

text \<open>A script in which every read fails: the table asked for is not there.\<close>

definition no_such_table :: script where
  "no_such_table = healthy\<lparr>on_read := (\<lambda>q. Inl (Exception ''no such table: missing''))\<rparr>"

text \<open>A script in which no file can be opened.\<close>

definition cannot_open :: script where
  "cannot_open = healthy\<lparr>on_connect := (\<lambda>path. Inl (Exception ''unable to open database file''))\<rparr>"

text \<open>A session with a database loaded, a table selected and one query in the history.\<close>

definition loaded_session :: session_state where
  "loaded_session =
     \<lparr>db_path = Some (Some ''/tmp/tmpa81c_old.db''),
      connection = Some (Some 0),
      tables = Some [SText ''users''],
      query_history = Some [\<lparr>query = ''SELECT * FROM users'', timestamp = 7, success = True,
                              rows_returned = 2, time = ''11:59:59''\<rparr>],
      selected_table = Some (Some ''users''),
      active_tab = Some ''explorer'',
      preferences = Some default_preferences\<rparr>"

definition loaded_world :: "(call list, unit) world" where
  "loaded_world = \<lparr>session = loaded_session, database = [], screen = []\<rparr>"

section \<open>Facts about text\<close>

lemma str_int_250: "str_int 250 = ''250''"
  by code_simp

lemma startswith_append: "startswith (p @ s) p"
  by (induction p) simp_all

lemma startswith_upper_takeWhile: "startswith (upper s) (upper (takeWhile P s))"
proof -
  have "upper s = upper (takeWhile P s) @ upper (dropWhile P s)"
    unfolding upper_def by (simp flip: map_append)
  then show ?thesis by (simp add: startswith_append)
qed

lemma first_keyword_is_select: "upper (first_keyword q) = ''SELECT'' \<Longrightarrow> is_select q"
  unfolding is_select_def first_keyword_def
  using startswith_upper_takeWhile [of "strip q" is_word_char] by simp

section \<open>Facts about the page\<close>

lemma st_show_fields:
  "session (st_show m w) = session w"
  "database (st_show m w) = database w"
  by (simp_all add: st_show_def)

lemma exported_st_show:
  "exported (st_show m w) = exported w @ (case download_data m of None \<Rightarrow> [] | Some d \<Rightarrow> [d])"
  by (cases "download_data m") (simp_all add: exported_def st_show_def List.map_filter_def)

lemma exported_database_update: "exported (w\<lparr>database := d\<rparr>) = exported w"
  by (simp add: exported_def)

section \<open>Properties of the session state store\<close>

text \<open>
  Claim C2. For every prior history and every call of \<open>add_to_query_history\<close> on a
  session that has a \<open>query_history\<close>, the call returns, the history after it has at
  most 50 entries, the entry just built is at index 0, and the rest is the head of the
  old history (its tail is cut off); no other field changes.
\<close>

theorem add_to_query_history_bounded:
  assumes "query_history s = Some h"
  shows "\<exists>s' h'. add_to_query_history now q ok n s = Inr s'
           \<and> s' = s\<lparr>query_history := Some h'\<rparr>
           \<and> length h' \<le> 50
           \<and> h' ! 0 = \<lparr>query = q, timestamp = fst now, success = ok, rows_returned = n,
                        time = snd now\<rparr>
           \<and> h' = \<lparr>query = q, timestamp = fst now, success = ok, rows_returned = n,
                    time = snd now\<rparr> # take 49 h"
  using assms by (auto simp: add_to_query_history_def Let_def take_Cons')

theorem add_to_query_history_bounded_witness:
  "query_history (fresh_session\<lparr>query_history :=
       Some (replicate 50 \<lparr>query = ''SELECT 1'', timestamp = 7, success = True,
                           rows_returned = 1, time = ''11:59:59''\<rparr>)\<rparr>)
     = Some (replicate 50 \<lparr>query = ''SELECT 1'', timestamp = 7, success = True,
                           rows_returned = 1, time = ''11:59:59''\<rparr>)
   \<and> (\<exists>s' h'. add_to_query_history (8, ''12:00:00'') ''DROP TABLE t'' False 0
         (fresh_session\<lparr>query_history :=
            Some (replicate 50 \<lparr>query = ''SELECT 1'', timestamp = 7, success = True,
                                rows_returned = 1, time = ''11:59:59''\<rparr>)\<rparr>) = Inr s'
        \<and> query_history s' = Some h'
        \<and> length h' = 50
        \<and> h' ! 0 = \<lparr>query = ''DROP TABLE t'', timestamp = 8, success = False,
                     rows_returned = 0, time = ''12:00:00''\<rparr>)"
  using add_to_query_history_bounded [of
      "fresh_session\<lparr>query_history :=
         Some (replicate 50 \<lparr>query = ''SELECT 1'', timestamp = 7, success = True,
                             rows_returned = 1, time = ''11:59:59''\<rparr>)\<rparr>"
      "replicate 50 \<lparr>query = ''SELECT 1'', timestamp = 7, success = True,
                      rows_returned = 1, time = ''11:59:59''\<rparr>"
      "(8, ''12:00:00'')" "''DROP TABLE t''" False 0]
  by (simp add: fresh_session_def)

text \<open>
  Claim C4. On every world whose session has a \<open>connection\<close> field,
  \<open>clear_database_state\<close> returns without raising; a connection that is held is closed
  and what \<open>close\<close> answers is ignored; \<open>db_path\<close>, \<open>connection\<close> and
  \<open>selected_table\<close> end as \<open>None\<close> and \<open>tables\<close> as the empty list; the history,
  the preferences, the active tab, every other key of the session and the page are as
  before.
\<close>

theorem clear_database_state_frame:
  assumes "connection (session w) = Some held"
  shows "fst (clear_database_state be w) = Inr ()
         \<and> db_path (session (snd (clear_database_state be w))) = Some None
         \<and> connection (session (snd (clear_database_state be w))) = Some None
         \<and> tables (session (snd (clear_database_state be w))) = Some []
         \<and> selected_table (session (snd (clear_database_state be w))) = Some None
         \<and> query_history (session (snd (clear_database_state be w))) = query_history (session w)
         \<and> preferences (session (snd (clear_database_state be w))) = preferences (session w)
         \<and> active_tab (session (snd (clear_database_state be w))) = active_tab (session w)
         \<and> session_state.more (session (snd (clear_database_state be w)))
             = session_state.more (session w)
         \<and> screen (snd (clear_database_state be w)) = screen w
         \<and> world.more (snd (clear_database_state be w)) = world.more w
         \<and> database (snd (clear_database_state be w))
             = (case held of None \<Rightarrow> database w
                           | Some c \<Rightarrow> snd (be_close be (database w) c))"
  using assms by (cases held) (simp_all add: clear_database_state_def)

theorem clear_database_state_frame_witness:
  "connection (session loaded_world) = Some (Some 0)
   \<and> fst (clear_database_state
            (scripted (healthy\<lparr>on_close := (\<lambda>c. Inl (Exception ''database is locked''))\<rparr>))
            loaded_world) = Inr ()
   \<and> session (snd (clear_database_state
            (scripted (healthy\<lparr>on_close := (\<lambda>c. Inl (Exception ''database is locked''))\<rparr>))
            loaded_world))
       = loaded_session\<lparr>db_path := Some None, connection := Some None, tables := Some [],
                         selected_table := Some None\<rparr>
   \<and> database (snd (clear_database_state
            (scripted (healthy\<lparr>on_close := (\<lambda>c. Inl (Exception ''database is locked''))\<rparr>))
            loaded_world)) = [Close 0]"
  using clear_database_state_frame [of loaded_world "Some 0"
      "scripted (healthy\<lparr>on_close := (\<lambda>c. Inl (Exception ''database is locked''))\<rparr>)"]
  by (simp add: loaded_world_def loaded_session_def scripted_def session_state.equality)

text \<open>
  Claim C8. \<open>init_session_state\<close> gives each of the seven fields its default where the
  key is absent and keeps the value of every key that is present; the other keys are
  untouched; running it on its own result changes nothing.
\<close>

theorem init_session_state_idempotent:
  "init_session_state (init_session_state s) = init_session_state s
   \<and> db_path (init_session_state s)
       = (case db_path s of None \<Rightarrow> Some None | Some v \<Rightarrow> Some v)
   \<and> connection (init_session_state s)
       = (case connection s of None \<Rightarrow> Some None | Some v \<Rightarrow> Some v)
   \<and> tables (init_session_state s)
       = (case tables s of None \<Rightarrow> Some [] | Some v \<Rightarrow> Some v)
   \<and> query_history (init_session_state s)
       = (case query_history s of None \<Rightarrow> Some [] | Some v \<Rightarrow> Some v)
   \<and> selected_table (init_session_state s)
       = (case selected_table s of None \<Rightarrow> Some None | Some v \<Rightarrow> Some v)
   \<and> active_tab (init_session_state s)
       = (case active_tab s of None \<Rightarrow> Some ''explorer'' | Some v \<Rightarrow> Some v)
   \<and> preferences (init_session_state s)
       = (case preferences s of
            None \<Rightarrow> Some [''rows_per_page'' \<mapsto> PInt 100, ''theme'' \<mapsto> PStr ''light'',
                           ''auto_run_queries'' \<mapsto> PBool False]
          | Some v \<Rightarrow> Some v)
   \<and> session_state.more (init_session_state s) = session_state.more s"
  by (simp add: init_session_state_def setdefault_def default_preferences_def split: option.splits)

text \<open>
  Claim C3. On a session that has its preferences, \<open>update_preference\<close> never raises;
  its flag is true exactly when the key is already a key of the preferences, and only
  then is the value stored under that key; for any other key the session is returned as
  it was. In particular, where \<open>rows_per_page\<close> is a key, the update to 250 succeeds
  and the next \<open>render_data_preview\<close> reads \<open>SELECT * FROM t LIMIT 250\<close>; where
  \<open>bogus_key\<close> is no key, its update fails and changes nothing.
\<close>

theorem update_preference_known_keys:
  assumes "preferences (session w) = Some p"
    and "connection (session w) = Some held"
  shows "update_preference key v (session w)
           = Inr (key \<in> dom p,
                  if key \<in> dom p then (session w)\<lparr>preferences := Some (p(key \<mapsto> v))\<rparr>
                  else session w)
         \<and> (''rows_per_page'' \<in> dom p \<longrightarrow>
              update_preference ''rows_per_page'' (PInt 250) (session w)
                = Inr (True, (session w)\<lparr>preferences := Some (p(''rows_per_page'' \<mapsto> PInt 250))\<rparr>)
              \<and> database (render_data_preview be t
                    (w\<lparr>session := (session w)
                          \<lparr>preferences := Some (p(''rows_per_page'' \<mapsto> PInt 250))\<rparr>\<rparr>))
                  = snd (be_read_sql be (database w) held
                           (''SELECT * FROM '' @ t @ '' LIMIT 250'')))
         \<and> (''bogus_key'' \<notin> dom p \<longrightarrow>
              update_preference ''bogus_key'' (PInt 1) (session w) = Inr (False, session w))"
proof -
  have general: "\<And>k x. update_preference k x (session w)
           = Inr (k \<in> dom p,
                  if k \<in> dom p then (session w)\<lparr>preferences := Some (p(k \<mapsto> x))\<rparr>
                  else session w)"
    using assms by (simp add: update_preference_def domIff)
  obtain r db1 where r:
    "be_read_sql be (database w) held (''SELECT * FROM '' @ t @ '' LIMIT 250'') = (r, db1)"
    by (cases "be_read_sql be (database w) held (''SELECT * FROM '' @ t @ '' LIMIT 250'')")
  have preview: "database (render_data_preview be t
              (w\<lparr>session := (session w)\<lparr>preferences := Some (p(''rows_per_page'' \<mapsto> PInt 250))\<rparr>\<rparr>))
           = snd (be_read_sql be (database w) held (''SELECT * FROM '' @ t @ '' LIMIT 250''))"
    using assms r
    by (cases r) (simp_all add: render_data_preview_def st_show_def get_table_preview_def
        str_int_250 Let_def)
  show ?thesis
    using general preview by simp
qed

theorem update_preference_known_keys_witness:
  "preferences (session loaded_world) = Some default_preferences
   \<and> connection (session loaded_world) = Some (Some 0)
   \<and> ''rows_per_page'' \<in> dom default_preferences
   \<and> ''bogus_key'' \<notin> dom default_preferences
   \<and> update_preference ''rows_per_page'' (PInt 250) (session loaded_world)
       = Inr (True, (session loaded_world)
                \<lparr>preferences := Some (default_preferences(''rows_per_page'' \<mapsto> PInt 250))\<rparr>)
   \<and> database (render_data_preview (scripted healthy) ''users''
         (loaded_world\<lparr>session := (session loaded_world)
            \<lparr>preferences := Some (default_preferences(''rows_per_page'' \<mapsto> PInt 250))\<rparr>\<rparr>))
       = [ReadSql (Some 0) ''SELECT * FROM users LIMIT 250'']
   \<and> update_preference ''bogus_key'' (PInt 1) (session loaded_world)
       = Inr (False, session loaded_world)"
proof -
  have p: "preferences (session loaded_world) = Some default_preferences"
    and c: "connection (session loaded_world) = Some (Some 0)"
    by (simp_all add: loaded_world_def loaded_session_def)
  have known: "''rows_per_page'' \<in> dom default_preferences"
    and unknown: "''bogus_key'' \<notin> dom default_preferences"
    by (simp_all add: default_preferences_def)
  have db: "snd (be_read_sql (scripted healthy) (database loaded_world) (Some 0)
                   (''SELECT * FROM '' @ ''users'' @ '' LIMIT 250''))
              = [ReadSql (Some 0) ''SELECT * FROM users LIMIT 250'']"
    by (simp add: scripted_def loaded_world_def)
  show ?thesis
    using update_preference_known_keys [OF p c, of "''rows_per_page''" "PInt 250"
        "scripted healthy" "''users''"] p c known unknown db
    by simp
qed

section \<open>Properties of the query gateway\<close>

text \<open>
  Claim C5. When the first keyword of the stripped text is \<open>SELECT\<close> in any case,
  \<open>execute_query\<close> makes one call, the read of the text as it was given; the frame
  that comes back is returned whole, an exception is raised again with the prefix, and
  the world is left as the read left it: nothing is executed or committed.
\<close>

theorem select_read_path:
  assumes "upper (first_keyword q) = ''SELECT''"
  shows "execute_query be db held q =
           (case be_read_sql be db held q of
              (Inl e, db1) \<Rightarrow> (Inl (Exception (''Error executing query: '' @ str_error e)), db1)
            | (Inr df, db1) \<Rightarrow> (Inr df, db1))"
  using first_keyword_is_select [OF assms]
  by (simp add: execute_query_def is_select_def)

theorem select_read_path_witness:
  "upper (first_keyword '' select * from users\<newline>'') = ''SELECT''
   \<and> execute_query (scripted healthy) [] (Some 0) '' select * from users\<newline>''
       = (Inr users_frame, [ReadSql (Some 0) '' select * from users\<newline>''])"
proof -
  have kw: "upper (first_keyword '' select * from users\<newline>'') = ''SELECT''"
    by code_simp
  have other: "'' select * from users\<newline>'' \<noteq> table_list_query"
    by (simp add: table_list_query_def)
  show ?thesis
    using kw other select_read_path [OF kw, of "scripted healthy" "[]" "Some 0"]
    by (simp add: scripted_def healthy_def)
qed

text \<open>
  Claim C6. When the text does not pass the \<open>SELECT\<close> test and both its execution
  and the commit that follows succeed, \<open>execute_query\<close> returns, in the world the
  commit left, a frame of the one column \<open>message\<close> with one cell: the text with the
  number of affected rows when the row count is not negative, the plain one otherwise.
\<close>

theorem non_select_commits:
  assumes "\<not> is_select q"
    and "be_execute be db c q = (Inr rowcount, db1)"
    and "be_commit be db1 c = (Inr u, db2)"
  shows "execute_query be db (Some c) q =
           (Inr [(''message'',
                  [SText (if rowcount \<ge> 0
                          then ''Query executed successfully. Rows affected: '' @ str_int rowcount
                          else ''Query executed successfully.'')])], db2)"
  using assms by (simp add: execute_query_def is_select_def rows_affected_frame_def executed_frame_def)

theorem non_select_commits_witness:
  "\<not> is_select ''DELETE FROM users WHERE id = 2''
   \<and> be_execute (scripted healthy) [] 0 ''DELETE FROM users WHERE id = 2''
       = (Inr 1, [Execute 0 ''DELETE FROM users WHERE id = 2''])
   \<and> be_commit (scripted healthy) [Execute 0 ''DELETE FROM users WHERE id = 2''] 0
       = (Inr (), [Execute 0 ''DELETE FROM users WHERE id = 2'', Commit 0])
   \<and> execute_query (scripted healthy) [] (Some 0) ''DELETE FROM users WHERE id = 2''
       = (Inr [(''message'', [SText ''Query executed successfully. Rows affected: 1''])],
          [Execute 0 ''DELETE FROM users WHERE id = 2'', Commit 0])"
proof -
  have ns: "\<not> is_select ''DELETE FROM users WHERE id = 2''"
    by code_simp
  have ex: "be_execute (scripted healthy) [] 0 ''DELETE FROM users WHERE id = 2''
       = (Inr 1, [Execute 0 ''DELETE FROM users WHERE id = 2''])"
    by (simp add: scripted_def healthy_def)
  have co: "be_commit (scripted healthy) [Execute 0 ''DELETE FROM users WHERE id = 2''] 0
       = (Inr (), [Execute 0 ''DELETE FROM users WHERE id = 2'', Commit 0])"
    by (simp add: scripted_def healthy_def)
  have one: "str_int 1 = ''1''"
    by code_simp
  show ?thesis
    using non_select_commits [OF ns ex co] ns ex co one by simp
qed

text \<open>
  Claim C7. When the text is not blank and \<open>execute_query\<close> raises, on a session with
  a connection field and a history, \<open>execute_sql_query\<close> returns without raising, the
  history gains at its front an entry for the text with \<open>success\<close> false and zero rows
  (cut to 50 as ever), and the page gains the error message.
\<close>

theorem query_failure_recorded:
  assumes "strip q \<noteq> []"
    and "connection (session w) = Some held"
    and "query_history (session w) = Some h"
    and "execute_query be (database w) held q = (Inl e, db1)"
  shows "execute_sql_query be now q w =
           (Inr (),
            w\<lparr>database := db1,
              session := (session w)\<lparr>query_history :=
                 Some (\<lparr>query = q, timestamp = fst now, success = False, rows_returned = 0,
                        time = snd now\<rparr> # take 49 h)\<rparr>,
              screen := screen w @ [StError (''Query Error: '' @ str_error e)]\<rparr>)"
  using assms
  by (simp add: execute_sql_query_def add_to_query_history_def st_show_def Let_def take_Cons')

theorem query_failure_recorded_witness:
  "strip ''SELECT * FROM missing'' \<noteq> []
   \<and> connection (session loaded_world) = Some (Some 0)
   \<and> execute_query (scripted no_such_table) (database loaded_world) (Some 0)
        ''SELECT * FROM missing''
       = (Inl (Exception ''Error executing query: no such table: missing''),
          [ReadSql (Some 0) ''SELECT * FROM missing''])
   \<and> execute_sql_query (scripted no_such_table) (8, ''12:00:00'') ''SELECT * FROM missing''
        loaded_world
       = (Inr (),
          loaded_world\<lparr>database := [ReadSql (Some 0) ''SELECT * FROM missing''],
            session := loaded_session\<lparr>query_history :=
               Some [\<lparr>query = ''SELECT * FROM missing'', timestamp = 8, success = False,
                      rows_returned = 0, time = ''12:00:00''\<rparr>,
                     \<lparr>query = ''SELECT * FROM users'', timestamp = 7, success = True,
                      rows_returned = 2, time = ''11:59:59''\<rparr>]\<rparr>,
            screen := [StError ''Query Error: Error executing query: no such table: missing'']\<rparr>)"
proof -
  have ne: "strip ''SELECT * FROM missing'' \<noteq> []"
    by code_simp
  have c: "connection (session loaded_world) = Some (Some 0)"
    and h: "query_history (session loaded_world)
              = Some [\<lparr>query = ''SELECT * FROM users'', timestamp = 7, success = True,
                       rows_returned = 2, time = ''11:59:59''\<rparr>]"
    by (simp_all add: loaded_world_def loaded_session_def)
  have sel: "startswith (upper (strip ''SELECT * FROM missing'')) ''SELECT''"
    by code_simp
  have ex: "execute_query (scripted no_such_table) (database loaded_world) (Some 0)
        ''SELECT * FROM missing''
       = (Inl (Exception ''Error executing query: no such table: missing''),
          [ReadSql (Some 0) ''SELECT * FROM missing''])"
    using sel by (simp add: execute_query_def scripted_def no_such_table_def loaded_world_def)
  show ?thesis
    using query_failure_recorded [OF ne c h ex, of "(8, ''12:00:00'')"] ne c ex
    by (simp add: loaded_world_def)
qed

section \<open>Properties of the exporter\<close>

text \<open>
  Claim C9. For every table name, format and world, \<open>export_table_data\<close> on the name
  and \<open>export_query_results\<close> on the text \<open>SELECT * FROM\<close> followed by the name
  offer the same data for download and leave the same world outside and the same
  session; they differ in the labels, file names and messages only.
\<close>

theorem export_table_matches_query:
  "exported (export_table_data be t fmt w)
     = exported (export_query_results be (''SELECT * FROM '' @ t) fmt w)
   \<and> database (export_table_data be t fmt w)
     = database (export_query_results be (''SELECT * FROM '' @ t) fmt w)
   \<and> session (export_table_data be t fmt w)
     = session (export_query_results be (''SELECT * FROM '' @ t) fmt w)"
proof (cases "connection (session w)")
  case None
  then show ?thesis
    by (simp add: export_table_data_def export_query_results_def exported_st_show st_show_fields)
next
  case (Some held)
  obtain r db1 where run: "execute_query be (database w) held (''SELECT * FROM '' @ t) = (r, db1)"
    by (cases "execute_query be (database w) held (''SELECT * FROM '' @ t)")
  show ?thesis
  proof (cases r)
    case (Inl e)
    with Some run show ?thesis
      by (simp add: export_table_data_def export_query_results_def exported_st_show
          st_show_fields exported_database_update)
  next
    case (Inr df)
    with Some run show ?thesis
      by (simp add: export_table_data_def export_query_results_def Let_def exported_st_show
          st_show_fields exported_database_update split: sum.splits)
  qed
qed

text \<open>
  On the scripted world both offer the encoded rows of \<open>users\<close> as CSV; as Excel
  neither offers anything, since the writer-less \<open>to_excel\<close> raises there.
\<close>

lemma export_table_data_example:
  "exported (export_table_data (scripted healthy) ''users'' ''CSV'' loaded_world)
     = [''id,username\<newline>1,alice\<newline>2,bob\<newline>'']
   \<and> exported (export_query_results (scripted healthy) ''SELECT * FROM users'' ''CSV'' loaded_world)
     = [''id,username\<newline>1,alice\<newline>2,bob\<newline>'']
   \<and> exported (export_table_data (scripted healthy) ''users'' ''Excel'' loaded_world) = []"
proof -
  have sel: "startswith (upper (strip ''SELECT * FROM users'')) ''SELECT''"
    by code_simp
  have other: "''SELECT * FROM users'' \<noteq> table_list_query"
    by (simp add: table_list_query_def)
  show ?thesis
    using sel other
    by (simp add: export_table_data_def export_query_results_def execute_query_def Let_def
        scripted_def healthy_def loaded_world_def loaded_session_def users_frame_def
        empty_frame_def len_frame_def exported_def st_show_def List.map_filter_def)
qed

section \<open>Properties of the upload flow\<close>

text \<open>
  Claim C1, as the specification states it, fails: with a database loaded and a new file
  that cannot be connected to, \<open>handle_uploaded_file\<close> reports failure and the session
  is not what it was, since \<open>clear_database_state\<close> has run before the connect.
\<close>

theorem handle_uploaded_file_failed_connect_counterexample:
  "fst (connect_to_database (scripted cannot_open) [WriteTemp [], Close 0] ''/tmp/tmpk3v9_2xq.db'')
     = Inl (Exception ''Failed to connect to database: unable to open database file'')
   \<and> fst (handle_uploaded_file (scripted cannot_open) [] loaded_world) = False
   \<and> session (snd (handle_uploaded_file (scripted cannot_open) [] loaded_world))
       = loaded_session\<lparr>db_path := Some None, connection := Some None,
                         tables := Some [], selected_table := Some None\<rparr>
   \<and> session (snd (handle_uploaded_file (scripted cannot_open) [] loaded_world))
       \<noteq> session loaded_world"
  by (simp add: handle_uploaded_file_def clear_database_state_def connect_to_database_def
      st_show_def Let_def scripted_def cannot_open_def healthy_def loaded_world_def
      loaded_session_def)

text \<open>
  Claim C1, amended. When the bytes are persisted to a path other than the current one
  and the connect on that path raises, \<open>handle_uploaded_file\<close> returns \<open>False\<close> and
  shows the error; by then the old connection has been closed (the connect runs in the
  world the close left) and \<open>db_path\<close>, \<open>connection\<close>, \<open>tables\<close> and
  \<open>selected_table\<close> are reset; the history, the preferences and every other field are
  as before the call.
\<close>

theorem handle_uploaded_file_failed_connect:
  assumes "be_write_temp be (database w) uploaded = (Inr tmp_path, db1)"
    and "db_path (session w) = Some current"
    and "current \<noteq> Some tmp_path"
    and "connection (session w) = Some held"
    and "connect_to_database be
           (case held of None \<Rightarrow> db1 | Some c \<Rightarrow> snd (be_close be db1 c)) tmp_path
         = (Inl e, db3)"
  shows "handle_uploaded_file be uploaded w =
           (False,
            w\<lparr>database := db3,
              session := (session w)\<lparr>db_path := Some None, connection := Some None,
                                      tables := Some [], selected_table := Some None\<rparr>,
              screen := screen w @ [StError (''Error loading database: '' @ str_error e)]\<rparr>)"
  using assms
  by (cases held)
     (simp_all add: handle_uploaded_file_def clear_database_state_def st_show_def Let_def)

theorem handle_uploaded_file_failed_connect_witness:
  "be_write_temp (scripted cannot_open) (database loaded_world) [] 
     = (Inr ''/tmp/tmpk3v9_2xq.db'', [WriteTemp []])
   \<and> db_path (session loaded_world) = Some (Some ''/tmp/tmpa81c_old.db'')
   \<and> Some ''/tmp/tmpa81c_old.db'' \<noteq> Some ''/tmp/tmpk3v9_2xq.db''
   \<and> connection (session loaded_world) = Some (Some 0)
   \<and> connect_to_database (scripted cannot_open) [WriteTemp [], Close 0] ''/tmp/tmpk3v9_2xq.db''
     = (Inl (Exception ''Failed to connect to database: unable to open database file''),
        [WriteTemp [], Close 0, Connect ''/tmp/tmpk3v9_2xq.db''])
   \<and> handle_uploaded_file (scripted cannot_open) [] loaded_world =
       (False,
        loaded_world\<lparr>database := [WriteTemp [], Close 0, Connect ''/tmp/tmpk3v9_2xq.db''],
          session := loaded_session\<lparr>db_path := Some None, connection := Some None,
                                    tables := Some [], selected_table := Some None\<rparr>,
          screen := [StError ''Error loading database: Failed to connect to database: unable to open database file'']\<rparr>)"
proof -
  have wt: "be_write_temp (scripted cannot_open) (database loaded_world) []
     = (Inr ''/tmp/tmpk3v9_2xq.db'', [WriteTemp []])"
    by (simp add: scripted_def cannot_open_def healthy_def loaded_world_def)
  have dp: "db_path (session loaded_world) = Some (Some ''/tmp/tmpa81c_old.db'')"
    and cn: "connection (session loaded_world) = Some (Some 0)"
    by (simp_all add: loaded_world_def loaded_session_def)
  have ne: "Some ''/tmp/tmpa81c_old.db'' \<noteq> Some ''/tmp/tmpk3v9_2xq.db''"
    by simp
  have cl: "(case Some (0::nat) of None \<Rightarrow> [WriteTemp []]
             | Some c \<Rightarrow> snd (be_close (scripted cannot_open) [WriteTemp []] c))
            = [WriteTemp [], Close 0]"
    by (simp add: scripted_def)
  have co: "connect_to_database (scripted cannot_open) [WriteTemp [], Close 0]
              ''/tmp/tmpk3v9_2xq.db''
     = (Inl (Exception ''Failed to connect to database: unable to open database file''),
        [WriteTemp [], Close 0, Connect ''/tmp/tmpk3v9_2xq.db''])"
    by (simp add: connect_to_database_def scripted_def cannot_open_def)
  have co': "connect_to_database (scripted cannot_open)
           (case Some (0::nat) of None \<Rightarrow> [WriteTemp []]
             | Some c \<Rightarrow> snd (be_close (scripted cannot_open) [WriteTemp []] c))
           ''/tmp/tmpk3v9_2xq.db''
     = (Inl (Exception ''Failed to connect to database: unable to open database file''),
        [WriteTemp [], Close 0, Connect ''/tmp/tmpk3v9_2xq.db''])"
    using co cl by simp
  show ?thesis
    using handle_uploaded_file_failed_connect [OF wt dp ne cn co'] wt dp cn co
    by (simp add: loaded_world_def)
qed

section \<open>Properties of get\_table\_list\<close>

text \<open>
  \<open>get_table_list\<close> is total: it raises nothing. A failed read gives the empty list, as
  a database without tables does. What the engine selects for the query is ordered and
  holds no reserved name.
\<close>

lemma get_table_list_swallows_failure:
  "be_read_sql be db (Some c) table_list_query = (Inl e, db1)
     \<Longrightarrow> get_table_list be db c = ([], db1)"
  by (simp add: get_table_list_def)

lemma get_table_list_empty_database:
  "get_table_list (scripted (catalogue [])) [] 1 = ([], [ReadSql (Some 1) table_list_query])
   \<and> get_table_list (scripted no_such_table) [] 1 = ([], [ReadSql (Some 1) table_list_query])"
  by (simp add: get_table_list_def scripted_def catalogue_def no_such_table_def
      sqlite_table_names_def)

lemma sqlite_table_names_sorted: "sorted (sqlite_table_names master)"
  by (simp add: sqlite_table_names_def)

lemma sql_like_percent: "sql_like ''%'' s"
  by (induction s) simp_all

lemma sql_like_prefix:
  "startswith (map lower_ascii s) (map lower_ascii p) \<Longrightarrow> CHR ''%'' \<notin> set p
     \<Longrightarrow> sql_like (p @ ''%'') s"
proof (induction p arbitrary: s)
  case Nil
  then show ?case by (simp add: sql_like_percent)
next
  case (Cons a ps)
  then show ?case by (cases s) auto
qed

lemma reserved_name_like: "reserved_name name \<Longrightarrow> sql_like ''sqlite_%'' name"
proof -
  assume r: "reserved_name name"
  have low: "map lower_ascii ''sqlite_'' = ''sqlite_''"
    by code_simp
  have "sql_like (''sqlite_'' @ ''%'') name"
    by (rule sql_like_prefix) (use r low in \<open>simp_all add: reserved_name_def\<close>)
  then show ?thesis by simp
qed

lemma sqlite_table_names_no_reserved_name:
  "reserved_name name \<Longrightarrow> name \<notin> set (sqlite_table_names master)"
  by (auto simp: sqlite_table_names_def dest: reserved_name_like)

text \<open>Two evaluations for the claim below.\<close>

lemma sqlitex_not_reserved: "\<not> reserved_name ''sqlitex''"
  by code_simp

lemma sqlitex_hidden:
  "sqlite_table_names [(''table'', ''users''), (''table'', ''sqlitex''),
        (''table'', ''sqlite_sequence'')] = [''users'']"
  by code_simp

text \<open>
  Claim C10 at a database with the tables \<open>users\<close> and \<open>sqlitex\<close> and the engine's
  own \<open>sqlite_sequence\<close>: the name \<open>sqlitex\<close> is not reserved, yet the list is
  \<open>users\<close> alone, because the underscore of the pattern \<open>sqlite_%\<close> stands for any
  character.
\<close>

theorem get_table_list_hides_unreserved_table:
  "get_table_list (scripted (catalogue [(''table'', ''users''), (''table'', ''sqlitex''),
        (''table'', ''sqlite_sequence'')])) [] 1
     = ([SText ''users''], [ReadSql (Some 1) table_list_query])
   \<and> \<not> reserved_name ''sqlitex''"
  using sqlitex_not_reserved sqlitex_hidden
  by (simp add: get_table_list_def scripted_def catalogue_def)

end
